theory Spec2Isabelle
  imports Main
begin

section \<open>Python values and exceptions\<close>

text \<open>
  The members of \<^verbatim>\<open>EventType\<close> (enums.py), in the order of their declaration.
\<close>

datatype EventType =
    file_changed | available | unavailable | edited | deleted | team_changed
  | team_join | team_leave | subscribe | unsubscribe | other

fun EventType_value :: "EventType \<Rightarrow> int" where
  "EventType_value file_changed = 0"
| "EventType_value available = 1"
| "EventType_value unavailable = 2"
| "EventType_value edited = 3"
| "EventType_value deleted = 4"
| "EventType_value team_changed = 5"
| "EventType_value team_join = 6"
| "EventType_value team_leave = 7"
| "EventType_value subscribe = 8"
| "EventType_value unsubscribe = 9"
| "EventType_value other = 10"

fun EventType_name :: "EventType \<Rightarrow> string" where
  "EventType_name file_changed = ''file_changed''"
| "EventType_name available = ''available''"
| "EventType_name unavailable = ''unavailable''"
| "EventType_name edited = ''edited''"
| "EventType_name deleted = ''deleted''"
| "EventType_name team_changed = ''team_changed''"
| "EventType_name team_join = ''team_join''"
| "EventType_name team_leave = ''team_leave''"
| "EventType_name subscribe = ''subscribe''"
| "EventType_name unsubscribe = ''unsubscribe''"
| "EventType_name other = ''other''"

definition EventType_members :: "EventType list" where
  "EventType_members =
     [file_changed, available, unavailable, edited, deleted, team_changed,
      team_join, team_leave, subscribe, unsubscribe, other]"

text \<open>
  The values the client handles: what \<^verbatim>\<open>json\<close> decodes a body to (\<open>PNone\<close>, booleans,
  integers, strings, lists, dictionaries) and the enum members a caller may hand to a
  \<^verbatim>\<open>Filter\<close>. A dictionary is an association list read with \<open>map_of\<close>. \<open>PEnum name v\<close> is a
  member of one of the other enumerations of enums.py, all of which have integer values.
  Floating-point numbers are not modelled.
\<close>

datatype pyval =
    PNone
  | PBool bool
  | PInt int
  | PStr string
  | PList "pyval list"
  | PDict "(string \<times> pyval) list"
  | PEvent EventType
  | PEnum string int

text \<open>
  The exceptions of errors.py, each with the arguments the client raises it with, and the
  built-in exceptions the modelled code can raise.
\<close>

datatype error =
    BadRequest pyval
  | Unauthorized pyval
  | Forbidden pyval
  | NotFound pyval
  | MethodNotAllowed pyval
  | NotAcceptable pyval
  | Gone pyval
  | UnprocessableEntity pyval pyval
  | TooManyRequests pyval pyval
  | modioException pyval
  | TypeError
  | KeyError
  | AttributeError
  | UnboundLocalError
  | ZeroDivisionError
  | JSONDecodeError
  | TransportError

section \<open>Pagination (objects.py)\<close>

record Pagination =
  count :: int
  limit :: int
  offset :: int
  total_results :: int

definition Pagination_max :: "Pagination \<Rightarrow> bool" where
  "Pagination_max self \<longleftrightarrow> offset self + count self = total_results self"

definition Pagination_min :: "Pagination \<Rightarrow> bool" where
  "Pagination_min self \<longleftrightarrow> offset self = 0"

definition Pagination_next :: "Pagination \<Rightarrow> int" where
  "Pagination_next self =
     (if \<not> Pagination_max self then offset self + limit self else offset self)"

definition Pagination_previous :: "Pagination \<Rightarrow> int" where
  "Pagination_previous self =
     (if \<not> Pagination_min self then offset self - limit self else offset self)"

text \<open>Python's \<^verbatim>\<open>//\<close> rounds towards minus infinity, as \<open>div\<close> on \<open>int\<close> does, and raises on 0.\<close>

definition Pagination_page :: "Pagination \<Rightarrow> error + int" where
  "Pagination_page self =
     (if limit self = 0 then Inl ZeroDivisionError else Inr (offset self div limit self))"

section \<open>Strings\<close>

text \<open>
  The methods of \<^verbatim>\<open>str\<close> that the code calls, on strings of ASCII characters:
  \<^verbatim>\<open>upper\<close>, \<^verbatim>\<open>lower\<close>, \<^verbatim>\<open>startswith\<close>, \<^verbatim>\<open>in\<close>, \<^verbatim>\<open>replace\<close>, \<^verbatim>\<open>join\<close> and \<^verbatim>\<open>str\<close> of an integer.
\<close>

definition lower_letters :: string where
  "lower_letters = ''abcdefghijklmnopqrstuvwxyz''"

definition upper_letters :: string where
  "upper_letters = ''ABCDEFGHIJKLMNOPQRSTUVWXYZ''"

definition upper_char :: "char \<Rightarrow> char" where
  "upper_char c = (case map_of (zip lower_letters upper_letters) c of Some d \<Rightarrow> d | None \<Rightarrow> c)"

definition lower_char :: "char \<Rightarrow> char" where
  "lower_char c = (case map_of (zip upper_letters lower_letters) c of Some d \<Rightarrow> d | None \<Rightarrow> c)"

definition upper :: "string \<Rightarrow> string" where
  "upper s = map upper_char s"

definition lower :: "string \<Rightarrow> string" where
  "lower s = map lower_char s"

definition startswith :: "string \<Rightarrow> string \<Rightarrow> bool" where
  "startswith s p \<longleftrightarrow> take (length p) s = p"

text \<open>\<open>str_contains s p\<close> is \<^verbatim>\<open>p in s\<close>.\<close>

fun str_contains :: "string \<Rightarrow> string \<Rightarrow> bool" where
  "str_contains [] p = (p = [])"
| "str_contains (c # cs) p = (startswith (c # cs) p \<or> str_contains cs p)"

text \<open>
  \<open>replace s old new\<close> is \<^verbatim>\<open>s.replace(old, new)\<close>: the occurrences of \<open>old\<close> are found from
  the left and do not overlap; an empty \<open>old\<close> matches before every character and at the end.
\<close>

fun replace :: "string \<Rightarrow> string \<Rightarrow> string \<Rightarrow> string" where
  "replace s [] new = new @ concat (map (\<lambda>c. c # new) s)"
| "replace [] (a # old) new = []"
| "replace (c # cs) (a # old) new =
     (if startswith (c # cs) (a # old) then new @ replace (drop (length old) cs) (a # old) new
      else c # replace cs (a # old) new)"

fun join :: "string \<Rightarrow> string list \<Rightarrow> string" where
  "join sep [] = []"
| "join sep [x] = x"
| "join sep (x # y # ys) = x @ sep @ join sep (y # ys)"

fun digits :: "nat \<Rightarrow> string" where
  "digits n =
     (if n < 10 then [''0123456789'' ! n]
      else digits (n div 10) @ [''0123456789'' ! (n mod 10)])"

declare digits.simps [simp del]

definition str_int :: "int \<Rightarrow> string" where
  "str_int i = (if i < 0 then CHR ''-'' # digits (nat (- i)) else digits (nat i))"

section \<open>Filter (objects.py)\<close>

text \<open>
  A \<^verbatim>\<open>Filter\<close> has no declared fields: its state is its attribute dictionary, which
  \<^verbatim>\<open>__setattr__\<close> updates and which the client copies into the query parameters.
\<close>

type_synonym Filter = "string \<rightharpoonup> pyval"

text \<open>
  The table \<^verbatim>\<open>_lib_to_api\<close> is a constant of utils.py; every function that reads it takes
  it as the parameter \<open>lib_to_api\<close>, so that what is proved holds for every table.
  \<open>api_name\<close> is the \<^verbatim>\<open>try: key = _lib_to_api[key] except KeyError: pass\<close> of \<^verbatim>\<open>_set\<close>.
\<close>

definition api_name :: "(string \<rightharpoonup> string) \<Rightarrow> string \<Rightarrow> string" where
  "api_name lib_to_api key = (case lib_to_api key of Some k \<Rightarrow> k | None \<Rightarrow> key)"

text \<open>The attributes \<^verbatim>\<open>value\<close> and \<^verbatim>\<open>name\<close>, which only enum members have.\<close>

fun enum_value :: "pyval \<Rightarrow> error + int" where
  "enum_value (PEvent e) = Inr (EventType_value e)"
| "enum_value (PEnum n v) = Inr v"
| "enum_value _ = Inl AttributeError"

fun enum_name :: "pyval \<Rightarrow> error + string" where
  "enum_name (PEvent e) = Inr (EventType_name e)"
| "enum_name (PEnum n v) = Inr n"
| "enum_name _ = Inl AttributeError"

text \<open>
  The branch \<^verbatim>\<open>if key == "event_type"\<close> of \<^verbatim>\<open>_set\<close>. It reads \<^verbatim>\<open>value.value\<close> first, so a
  value that is not an enum member raises \<^verbatim>\<open>AttributeError\<close>.
\<close>

definition event_type_value :: "pyval \<Rightarrow> error + pyval" where
  "event_type_value v =
     (case enum_value v of
        Inl e \<Rightarrow> Inl e
      | Inr n \<Rightarrow>
          (case enum_name v of
             Inl e \<Rightarrow> Inl e
           | Inr nm \<Rightarrow>
               if n < 6
               then Inr (PStr (''MOD'' @ (if v \<noteq> PEvent file_changed then ''_'' else [])
                                @ upper nm))
               else Inr (PStr (''USER_'' @ upper nm))))"

text \<open>
  \<^verbatim>\<open>_set(key, value, text)\<close>. Every caller passes \<^verbatim>\<open>"{}"\<close> followed by a fixed suffix as
  \<^verbatim>\<open>text\<close>, so the model takes the suffix: \<^verbatim>\<open>text.format(key)\<close> is \<open>key @ suffix\<close>.
\<close>

definition Filter_set ::
  "(string \<rightharpoonup> string) \<Rightarrow> Filter \<Rightarrow> string \<Rightarrow> pyval \<Rightarrow> string \<Rightarrow> error + Filter" where
  "Filter_set lib_to_api self key v suffix =
     (let key = api_name lib_to_api key in
      case (if key = ''event_type'' then event_type_value v else Inr v) of
        Inl e \<Rightarrow> Inl e
      | Inr v \<Rightarrow>
          (let v = (case enum_value v of Inr n \<Rightarrow> PInt n | Inl _ \<Rightarrow> v)
           in Inr (self(key @ suffix \<mapsto> v))))"

text \<open>
  The loop \<^verbatim>\<open>for key, value in kwargs.items(): self._set(key, value, text)\<close> of the builder
  methods; the keyword arguments come in the order the caller wrote them. An exception
  ends the loop.
\<close>

fun Filter_set_all ::
  "(string \<rightharpoonup> string) \<Rightarrow> Filter \<Rightarrow> (string \<times> pyval) list \<Rightarrow> string \<Rightarrow> error + Filter" where
  "Filter_set_all lib_to_api self [] suffix = Inr self"
| "Filter_set_all lib_to_api self ((key, v) # kwargs) suffix =
     (case Filter_set lib_to_api self key v suffix of
        Inl e \<Rightarrow> Inl e
      | Inr self' \<Rightarrow> Filter_set_all lib_to_api self' kwargs suffix)"

definition Filter_init :: "(string \<rightharpoonup> string) \<Rightarrow> (string \<times> pyval) list \<Rightarrow> error + Filter" where
  "Filter_init lib_to_api filters = Filter_set_all lib_to_api Map.empty filters []"

definition Filter_text :: "Filter \<Rightarrow> pyval \<Rightarrow> Filter" where
  "Filter_text self query = self(''_q'' \<mapsto> query)"

definition equals :: "(string \<rightharpoonup> string) \<Rightarrow> Filter \<Rightarrow> (string \<times> pyval) list \<Rightarrow> error + Filter" where
  "equals lib_to_api self kwargs = Filter_set_all lib_to_api self kwargs []"

definition not_equals :: "(string \<rightharpoonup> string) \<Rightarrow> Filter \<Rightarrow> (string \<times> pyval) list \<Rightarrow> error + Filter" where
  "not_equals lib_to_api self kwargs = Filter_set_all lib_to_api self kwargs ''-not''"

definition like :: "(string \<rightharpoonup> string) \<Rightarrow> Filter \<Rightarrow> (string \<times> pyval) list \<Rightarrow> error + Filter" where
  "like lib_to_api self kwargs = Filter_set_all lib_to_api self kwargs ''-lk''"

definition not_like :: "(string \<rightharpoonup> string) \<Rightarrow> Filter \<Rightarrow> (string \<times> pyval) list \<Rightarrow> error + Filter" where
  "not_like lib_to_api self kwargs = Filter_set_all lib_to_api self kwargs ''-not-lk''"

text \<open>
  The elements of the sequences given to \<^verbatim>\<open>values_in\<close> and \<^verbatim>\<open>values_not_in\<close> are the
  scalars their documentation names, integers and strings, and members of \<^verbatim>\<open>EventType\<close>;
  \<open>scalar_str\<close> is \<^verbatim>\<open>str(x)\<close>.
\<close>

datatype scalar = SInt int | SStr string | SEvent EventType

fun scalar_str :: "scalar \<Rightarrow> string" where
  "scalar_str (SInt i) = str_int i"
| "scalar_str (SStr s) = s"
| "scalar_str (SEvent e) = ''EventType.'' @ EventType_name e"

definition joined :: "(string \<times> scalar list) \<Rightarrow> (string \<times> pyval)" where
  "joined kv = (fst kv, PStr (join '','' (map scalar_str (snd kv))))"

definition values_in ::
  "(string \<rightharpoonup> string) \<Rightarrow> Filter \<Rightarrow> (string \<times> scalar list) list \<Rightarrow> error + Filter" where
  "values_in lib_to_api self kwargs = Filter_set_all lib_to_api self (map joined kwargs) ''-in''"

definition values_not_in ::
  "(string \<rightharpoonup> string) \<Rightarrow> Filter \<Rightarrow> (string \<times> scalar list) list \<Rightarrow> error + Filter" where
  "values_not_in lib_to_api self kwargs =
     Filter_set_all lib_to_api self (map joined kwargs) ''-not-in''"

definition Filter_max :: "(string \<rightharpoonup> string) \<Rightarrow> Filter \<Rightarrow> (string \<times> pyval) list \<Rightarrow> error + Filter" where
  "Filter_max lib_to_api self kwargs = Filter_set_all lib_to_api self kwargs ''-max''"

definition Filter_min :: "(string \<rightharpoonup> string) \<Rightarrow> Filter \<Rightarrow> (string \<times> pyval) list \<Rightarrow> error + Filter" where
  "Filter_min lib_to_api self kwargs = Filter_set_all lib_to_api self kwargs ''-min''"

definition smaller_than :: "(string \<rightharpoonup> string) \<Rightarrow> Filter \<Rightarrow> (string \<times> pyval) list \<Rightarrow> error + Filter" where
  "smaller_than lib_to_api self kwargs = Filter_set_all lib_to_api self kwargs ''-st''"

definition greater_than :: "(string \<rightharpoonup> string) \<Rightarrow> Filter \<Rightarrow> (string \<times> pyval) list \<Rightarrow> error + Filter" where
  "greater_than lib_to_api self kwargs = Filter_set_all lib_to_api self kwargs ''-gt''"

definition bitwise :: "(string \<rightharpoonup> string) \<Rightarrow> Filter \<Rightarrow> (string \<times> pyval) list \<Rightarrow> error + Filter" where
  "bitwise lib_to_api self kwargs = Filter_set_all lib_to_api self kwargs ''-bitwise-and''"

definition Filter_sort :: "Filter \<Rightarrow> string \<Rightarrow> bool \<Rightarrow> Filter" where
  "Filter_sort self key reverse =
     self(''_sort'' \<mapsto> PStr (if \<not> reverse then key else ''-'' @ key))"

definition Filter_limit :: "Filter \<Rightarrow> pyval \<Rightarrow> Filter" where
  "Filter_limit self n = self(''_limit'' \<mapsto> n)"

definition Filter_offset :: "Filter \<Rightarrow> pyval \<Rightarrow> Filter" where
  "Filter_offset self n = self(''_offset'' \<mapsto> n)"

section \<open>Event.type (objects.py)\<close>

text \<open>\<^verbatim>\<open>EventType[name]\<close>: the member of that name, or \<^verbatim>\<open>KeyError\<close>.\<close>

definition EventType_lookup :: "string \<Rightarrow> error + EventType" where
  "EventType_lookup nm =
     (case find (\<lambda>e. EventType_name e = nm) EventType_members of
        Some e \<Rightarrow> Inr e
      | None \<Rightarrow> Inl KeyError)"

definition Event_type :: "string \<Rightarrow> error + EventType" where
  "Event_type raw_type =
     (if startswith raw_type ''MOD''
      then EventType_lookup (lower (replace (replace raw_type ''MOD_'' []) ''MOD'' []))
      else EventType_lookup (lower (replace raw_type ''USER_'' [])))"

section \<open>Client (client.py)\<close>

subsection \<open>Operations on decoded values\<close>

text \<open>\<open>py_in k v\<close> is \<^verbatim>\<open>k in v\<close> for a string \<open>k\<close>; values that are no containers raise.\<close>

fun py_in :: "string \<Rightarrow> pyval \<Rightarrow> error + bool" where
  "py_in k (PDict kvs) = Inr (map_of kvs k \<noteq> None)"
| "py_in k (PList xs) = Inr (PStr k \<in> set xs)"
| "py_in k (PStr s) = Inr (str_contains s k)"
| "py_in k _ = Inl TypeError"

text \<open>\<open>py_getitem v k\<close> is \<^verbatim>\<open>v[k]\<close> for a string \<open>k\<close>, which only a dictionary accepts.\<close>

fun py_getitem :: "pyval \<Rightarrow> string \<Rightarrow> error + pyval" where
  "py_getitem (PDict kvs) k = (case map_of kvs k of Some v \<Rightarrow> Inr v | None \<Rightarrow> Inl KeyError)"
| "py_getitem _ k = Inl TypeError"

text \<open>
  \<open>py_eq_int v n\<close> is \<^verbatim>\<open>v == n\<close> for an integer literal \<open>n\<close>, on the values a body decodes
  to: a boolean compares as 0 or 1, a value of another type is never equal.
\<close>

fun py_eq_int :: "pyval \<Rightarrow> int \<Rightarrow> bool" where
  "py_eq_int (PInt i) n = (i = n)"
| "py_eq_int (PBool b) n = ((if b then 1 else 0) = n)"
| "py_eq_int _ n = False"

subsection \<open>State, requests and responses\<close>

record Client =
  api_key :: "string option"
  access_token :: "string option"
  lang :: string
  version :: string
  rate_limit :: pyval
  rate_remain :: pyval
  rate_retry :: pyval
  test :: bool

text \<open>
  A response of the \<^verbatim>\<open>requests\<close> library: \<open>headers r name\<close> is \<^verbatim>\<open>r.headers.get(name)\<close>, and
  \<open>body r\<close> is what \<^verbatim>\<open>r.json()\<close> decodes, \<open>None\<close> when the body is not JSON and the call raises.
\<close>

record response =
  status_code :: int
  headers :: "string \<rightharpoonup> string"
  body :: "pyval option"

datatype verb = GET | POST | PUT | DELETE

text \<open>
  What a call of \<^verbatim>\<open>requests\<close> is given besides the address and the headers:
  \<^verbatim>\<open>params=extra\<close> by \<^verbatim>\<open>_get_request\<close>, the caller's keyword arguments \<^verbatim>\<open>**fields\<close> by the others.
\<close>

datatype payload = Params "string \<rightharpoonup> pyval" | Fields "string \<rightharpoonup> pyval"

record request =
  verb :: verb
  url :: string
  req_headers :: "string \<rightharpoonup> string"
  payload :: payload

text \<open>What \<^verbatim>\<open>_error_check\<close> returns: the response itself, or the decoded body.\<close>

datatype retval = RResponse response | RJson pyval

text \<open>
  The result of a method that talks to the server: the value returned or the exception
  raised, the client as the call leaves it, and the requests handed to the transport.
\<close>

record 'a outcome =
  result :: "error + 'a"
  client :: Client
  sent :: "request list"

text \<open>The truth value of \<^verbatim>\<open>self.access_token\<close>: \<^verbatim>\<open>None\<close> and the empty string are false.\<close>

fun truthy :: "string option \<Rightarrow> bool" where
  "truthy None = False"
| "truthy (Some s) = (s \<noteq> [])"

fun opt_str :: "string option \<Rightarrow> pyval" where
  "opt_str None = PNone"
| "opt_str (Some s) = PStr s"

definition base_path :: "Client \<Rightarrow> string" where
  "base_path self =
     (if test self then ''https://api.test.mod.io/'' @ version self
      else ''https://api.mod.io/'' @ version self)"

subsection \<open>Response handling\<close>

text \<open>
  \<^verbatim>\<open>_error_check\<close>. The three assignments to the rate-limit attributes come first; nothing
  after them changes the client, so the client that the call leaves behind is the same
  whether the method returns or raises, and the model gives it beside the result.
\<close>

definition error_check :: "Client \<Rightarrow> response \<Rightarrow> (error + retval) \<times> Client" where
  "error_check self r =
     (let self = self\<lparr>rate_limit :=
            (case headers r ''X-RateLimit-Limit'' of Some v \<Rightarrow> PStr v | None \<Rightarrow> rate_limit self)\<rparr>;
          self = self\<lparr>rate_remain :=
            (case headers r ''X-RateLimit-Remaining'' of Some v \<Rightarrow> PStr v | None \<Rightarrow> rate_remain self)\<rparr>;
          self = self\<lparr>rate_retry :=
            (case headers r ''X-Ratelimit-RetryAfter'' of Some v \<Rightarrow> PStr v | None \<Rightarrow> PInt 0)\<rparr>
      in
      (if status_code r = 204 then Inr (RResponse r)
       else
         (case body r of
            None \<Rightarrow> Inl JSONDecodeError
          | Some request_json \<Rightarrow>
              (case py_in ''error'' request_json of
                 Inl e \<Rightarrow> Inl e
               | Inr False \<Rightarrow> Inr (RJson request_json)
               | Inr True \<Rightarrow>
                   (case py_getitem request_json ''error'' of
                      Inl e \<Rightarrow> Inl e
                    | Inr err \<Rightarrow>
                        (case py_getitem err ''code'' of
                           Inl e \<Rightarrow> Inl e
                         | Inr code \<Rightarrow>
                             (case py_getitem err ''message'' of
                                Inl e \<Rightarrow> Inl e
                              | Inr msg \<Rightarrow>
                                  if py_eq_int code 400 then Inl (BadRequest msg)
                                  else if py_eq_int code 401 then Inl (Unauthorized msg)
                                  else if py_eq_int code 403 then Inl (Forbidden msg)
                                  else if py_eq_int code 404 then Inl (NotFound msg)
                                  else if py_eq_int code 405 then Inl (MethodNotAllowed msg)
                                  else if py_eq_int code 406 then Inl (NotAcceptable msg)
                                  else if py_eq_int code 410 then Inl (Gone msg)
                                  else if py_eq_int code 422 then
                                    (case py_in ''errors'' err of
                                       Inl e \<Rightarrow> Inl e
                                     | Inr True \<Rightarrow>
                                         (case py_getitem err ''errors'' of
                                            Inl e \<Rightarrow> Inl e
                                          | Inr errors \<Rightarrow> Inl (UnprocessableEntity msg errors))
                                     | Inr False \<Rightarrow> Inl (UnprocessableEntity msg PNone))
                                  else if py_eq_int code 429 then
                                    Inl (TooManyRequests msg (rate_retry self))
                                  else Inl (modioException msg)))))),
       self))"

subsection \<open>Building and sending requests\<close>

definition define_headers :: "Client \<Rightarrow> int \<Rightarrow> error + (string \<rightharpoonup> string)" where
  "define_headers self h_type =
     (if h_type = 0 then
        (case access_token self of
           None \<Rightarrow> Inl TypeError
         | Some t \<Rightarrow>
             Inr [''Authorization'' \<mapsto> ''Bearer '' @ t,
                  ''Content-Type'' \<mapsto> ''application/x-www-form-urlencoded'',
                  ''Accept'' \<mapsto> ''application/json'',
                  ''Accept-Language'' \<mapsto> lang self])
      else if h_type = 1 then
        (case access_token self of
           None \<Rightarrow> Inl TypeError
         | Some t \<Rightarrow>
             Inr [''Authorization'' \<mapsto> ''Bearer '' @ t,
                  ''Accept'' \<mapsto> ''application/json'',
                  ''Accept-Language'' \<mapsto> lang self])
      else if h_type = 2 then
        Inr [''Accept'' \<mapsto> ''application/json'',
             ''Accept-Language'' \<mapsto> lang self,
             ''Content-Type'' \<mapsto> ''application/x-www-form-urlencoded'']
      else Inl UnboundLocalError)"

text \<open>
  The two lines that end each of the four request methods: the call of \<^verbatim>\<open>requests\<close>,
  whose arguments are evaluated first, and \<^verbatim>\<open>_error_check\<close> on its response. The network
  and the server are the parameter \<open>transport\<close>, which answers a request with a response or
  raises.
\<close>

definition dispatch ::
  "(request \<Rightarrow> error + response) \<Rightarrow> Client \<Rightarrow> verb \<Rightarrow> string \<Rightarrow> int \<Rightarrow> payload \<Rightarrow> retval outcome" where
  "dispatch transport self v path h_type p =
     (case define_headers self h_type of
        Inl e \<Rightarrow> \<lparr>result = Inl e, client = self, sent = []\<rparr>
      | Inr hs \<Rightarrow>
          (let rq = \<lparr>verb = v, url = base_path self @ path, req_headers = hs, payload = p\<rparr>
           in case transport rq of
                Inl e \<Rightarrow> \<lparr>result = Inl e, client = self, sent = [rq]\<rparr>
              | Inr r \<Rightarrow>
                  (let (res, self') = error_check self r
                   in \<lparr>result = res, client = self', sent = [rq]\<rparr>)))"

text \<open>
  \<^verbatim>\<open>_get_request(url, h_type=0, **fields)\<close>; the keyword \<^verbatim>\<open>filter\<close>, which the method pops
  from \<^verbatim>\<open>fields\<close>, is the argument \<open>flt\<close>, and \<open>fields'\<close> holds the other keywords. A
  \<^verbatim>\<open>Filter\<close> object is always true, so \<^verbatim>\<open>f if f else Filter()\<close> replaces only \<^verbatim>\<open>None\<close>.
\<close>

definition get_request ::
  "(request \<Rightarrow> error + response) \<Rightarrow> Client \<Rightarrow> string \<Rightarrow> int \<Rightarrow> Filter option
     \<Rightarrow> (string \<rightharpoonup> pyval) \<Rightarrow> retval outcome" where
  "get_request transport self path h_type flt fields' =
     (let f = (case flt of Some f \<Rightarrow> f | None \<Rightarrow> Map.empty);
          extra = fields' ++ f
      in if \<not> truthy (access_token self)
         then dispatch transport self GET path 2
                (Params (extra(''api_key'' \<mapsto> opt_str (api_key self))))
         else dispatch transport self GET path h_type (Params extra))"




subsection \<open>Construction\<close>

text \<open>
  \<^verbatim>\<open>get_my_user\<close> and \<^verbatim>\<open>get_games\<close> send one request and build objects from the decoded
  body. The classes they build (\<^verbatim>\<open>User\<close>, \<^verbatim>\<open>Game\<close>) belong to other modules; the
  construction is the parameter \<open>build\<close>, which gives the exception it raises, if any.
\<close>

definition get_my_user ::
  "(request \<Rightarrow> error + response) \<Rightarrow> (retval \<Rightarrow> error option) \<Rightarrow> Client \<Rightarrow> unit outcome" where
  "get_my_user transport build self =
     (let out = get_request transport self ''/me'' 0 None Map.empty
      in case result out of
           Inl e \<Rightarrow> \<lparr>result = Inl e, client = client out, sent = sent out\<rparr>
         | Inr me_json \<Rightarrow>
             (case build me_json of
                Some e \<Rightarrow> \<lparr>result = Inl e, client = client out, sent = sent out\<rparr>
              | None \<Rightarrow> \<lparr>result = Inr (), client = client out, sent = sent out\<rparr>))"

definition get_games ::
  "(request \<Rightarrow> error + response) \<Rightarrow> (retval \<Rightarrow> error option) \<Rightarrow> Client \<Rightarrow> Filter option
     \<Rightarrow> unit outcome" where
  "get_games transport build self flt =
     (let out = get_request transport self ''/games'' 0 flt Map.empty
      in case result out of
           Inl e \<Rightarrow> \<lparr>result = Inl e, client = client out, sent = sent out\<rparr>
         | Inr game_json \<Rightarrow>
             (case build game_json of
                Some e \<Rightarrow> \<lparr>result = Inl e, client = client out, sent = sent out\<rparr>
              | None \<Rightarrow> \<lparr>result = Inr (), client = client out, sent = sent out\<rparr>))"

text \<open>
  \<^verbatim>\<open>Client.__init__\<close>: the result is the exception that leaves the constructor, if any; the
  objects that the two calls return are dropped.
\<close>

definition Client_init ::
  "(request \<Rightarrow> error + response) \<Rightarrow> (retval \<Rightarrow> error option) \<Rightarrow> (retval \<Rightarrow> error option)
     \<Rightarrow> string option \<Rightarrow> string option \<Rightarrow> string \<Rightarrow> string \<Rightarrow> bool \<Rightarrow> unit outcome" where
  "Client_init transport build_user build_games key auth lng vers tst =
     (let self = \<lparr>api_key = key, access_token = auth, lang = lng, version = vers,
                  rate_limit = PNone, rate_remain = PNone, rate_retry = PInt 0, test = tst\<rparr>
      in if truthy (access_token self)
         then (let out = get_my_user transport build_user self
               in case result out of
                    Inl (Forbidden m) \<Rightarrow>
                      out\<lparr>result :=
                        Inl (Forbidden (PStr ''Invalid token, are you using the right environment?''))\<rparr>
                  | _ \<Rightarrow> out)
         else get_games transport build_games self None)"

subsection \<open>Reading what was sent\<close>

text \<open>
  \<open>param rq k\<close> is the query parameter \<open>k\<close> that the call of \<^verbatim>\<open>requests\<close> is given: an entry
  of \<^verbatim>\<open>extra\<close> for a request of \<^verbatim>\<open>_get_request\<close>, an entry of the caller's \<^verbatim>\<open>params\<close>
  dictionary, if there is one, for the other methods.
\<close>

fun param :: "request \<Rightarrow> string \<Rightarrow> pyval option" where
  "param rq k =
     (case payload rq of
        Params m \<Rightarrow> m k
      | Fields m \<Rightarrow> (case m ''params'' of Some (PDict kvs) \<Rightarrow> map_of kvs k | _ \<Rightarrow> None))"

definition sent_param :: "'a outcome \<Rightarrow> string \<Rightarrow> pyval option list" where
  "sent_param out k = map (\<lambda>rq. param rq k) (sent out)"



definition sent_payload :: "'a outcome \<Rightarrow> payload list" where
  "sent_payload out = map payload (sent out)"

text \<open>
  Two environments for concrete runs: a transport that answers every request with the
  response \<open>r\<close>, and a construction of result objects that raises nothing.
\<close>

definition answer :: "response \<Rightarrow> request \<Rightarrow> error + response" where
  "answer r rq = Inr r"

definition built :: "retval \<Rightarrow> error option" where
  "built v = None"

section \<open>Properties of Pagination\<close>

text \<open>
  C7. For every Pagination with a positive limit: \<^verbatim>\<open>max()\<close> holds exactly when offset plus
  count equals total; \<^verbatim>\<open>min()\<close> holds exactly when the offset is 0; \<^verbatim>\<open>page()\<close> returns the
  offset divided by the limit, rounded down; \<^verbatim>\<open>next()\<close> returns offset plus limit when
  \<^verbatim>\<open>max()\<close> is false and the unchanged offset when it is true. With count 20, limit 20,
  offset 0 and total 57, \<^verbatim>\<open>max()\<close> is false, \<^verbatim>\<open>next()\<close> is 20 and \<^verbatim>\<open>page()\<close> is 0; with offset
  40, count 17 and total 57, whatever the limit, \<^verbatim>\<open>max()\<close> is true and \<^verbatim>\<open>next()\<close> stays 40.
\<close>

theorem pagination_arithmetic:
  assumes "0 < limit p"
  shows "(Pagination_max p \<longleftrightarrow> offset p + count p = total_results p)
       \<and> (Pagination_min p \<longleftrightarrow> offset p = 0)
       \<and> Pagination_page p = Inr (offset p div limit p)
       \<and> (\<not> Pagination_max p \<longrightarrow> Pagination_next p = offset p + limit p)
       \<and> (Pagination_max p \<longrightarrow> Pagination_next p = offset p)
       \<and> \<not> Pagination_max \<lparr>count = 20, limit = 20, offset = 0, total_results = 57\<rparr>
       \<and> Pagination_next \<lparr>count = 20, limit = 20, offset = 0, total_results = 57\<rparr> = 20
       \<and> Pagination_page \<lparr>count = 20, limit = 20, offset = 0, total_results = 57\<rparr> = Inr 0
       \<and> Pagination_max \<lparr>count = 17, limit = l, offset = 40, total_results = 57\<rparr>
       \<and> Pagination_next \<lparr>count = 17, limit = l, offset = 40, total_results = 57\<rparr> = 40"
  using assms
  by (simp add: Pagination_max_def Pagination_min_def Pagination_page_def Pagination_next_def)

theorem pagination_arithmetic_witness:
  "(0::int) < limit \<lparr>count = 20, limit = 20, offset = 20, total_results = 57\<rparr>
   \<and> \<not> Pagination_max \<lparr>count = 20, limit = 20, offset = 20, total_results = 57\<rparr>
   \<and> \<not> Pagination_min \<lparr>count = 20, limit = 20, offset = 20, total_results = 57\<rparr>
   \<and> Pagination_page \<lparr>count = 20, limit = 20, offset = 20, total_results = 57\<rparr> = Inr 1
   \<and> Pagination_next \<lparr>count = 20, limit = 20, offset = 20, total_results = 57\<rparr> = 40"
  using pagination_arithmetic
          [where p = "\<lparr>count = 20, limit = 20, offset = 20, total_results = 57\<rparr>" and l = 20]
  by simp

section \<open>Properties of the event-type rule\<close>

lemmas letter_defs =
  upper_def upper_char_def lower_def lower_char_def lower_letters_def upper_letters_def

lemma event_type_value_PEvent:
  "event_type_value (PEvent e) = Inr (PStr
     (if EventType_value e < 6
      then (if e = file_changed then ''MODFILE_CHANGED'' else ''MOD_'' @ upper (EventType_name e))
      else ''USER_'' @ upper (EventType_name e)))"
  by (cases e) (simp_all add: event_type_value_def letter_defs)

lemma Event_type_wire:
  "Event_type
     (if EventType_value e < 6
      then (if e = file_changed then ''MODFILE_CHANGED'' else ''MOD_'' @ upper (EventType_name e))
      else ''USER_'' @ upper (EventType_name e)) = Inr e"
  by (cases e)
     (simp_all add: Event_type_def startswith_def EventType_lookup_def EventType_members_def
        letter_defs)

text \<open>
  C9. When the translated key is \<^verbatim>\<open>event_type\<close>, \<^verbatim>\<open>_set\<close> stores for every member of
  \<^verbatim>\<open>EventType\<close> the string of the special rule, under the key with the suffix of the
  calling method: a member whose value is below 6 gives \<^verbatim>\<open>MOD_\<close> and its name in upper case,
  except \<^verbatim>\<open>file_changed\<close>, which gives \<^verbatim>\<open>MODFILE_CHANGED\<close> without the underscore; a member
  whose value is 6 or more gives \<^verbatim>\<open>USER_\<close> and its name in upper case.
\<close>

theorem event_type_filter_value:
  assumes "api_name lib_to_api key = ''event_type''"
  shows "Filter_set lib_to_api self key (PEvent e) suffix =
           Inr (self(''event_type'' @ suffix \<mapsto> PStr
             (if EventType_value e < 6
              then (if e = file_changed then ''MODFILE_CHANGED''
                    else ''MOD_'' @ upper (EventType_name e))
              else ''USER_'' @ upper (EventType_name e))))"
  using assms by (simp add: Filter_set_def event_type_value_PEvent)

theorem event_type_filter_value_witness:
  "api_name Map.empty ''event_type'' = ''event_type''
   \<and> Filter_set Map.empty Map.empty ''event_type'' (PEvent team_changed) [] =
       Inr [''event_type'' \<mapsto> PStr ''MOD_TEAM_CHANGED'']
   \<and> Filter_set Map.empty Map.empty ''event_type'' (PEvent file_changed) ''-not'' =
       Inr [''event_type-not'' \<mapsto> PStr ''MODFILE_CHANGED'']
   \<and> Filter_set Map.empty Map.empty ''event_type'' (PEvent team_join) [] =
       Inr [''event_type'' \<mapsto> PStr ''USER_TEAM_JOIN'']"
  using event_type_filter_value
          [where lib_to_api = Map.empty and key = "''event_type''" and self = Map.empty
             and e = team_changed and suffix = "[]"]
        event_type_filter_value
          [where lib_to_api = Map.empty and key = "''event_type''" and self = Map.empty
             and e = file_changed and suffix = "''-not''"]
        event_type_filter_value
          [where lib_to_api = Map.empty and key = "''event_type''" and self = Map.empty
             and e = team_join and suffix = "[]"]
  by (simp add: api_name_def letter_defs)

text \<open>
  C10. For every member \<open>e\<close> of \<^verbatim>\<open>EventType\<close>, the string that \<^verbatim>\<open>_set\<close> stores for it under
  the key \<^verbatim>\<open>event_type\<close> is read back as \<open>e\<close> by the property \<^verbatim>\<open>Event.type\<close>.
\<close>

theorem event_type_round_trip:
  assumes "api_name lib_to_api key = ''event_type''"
  shows "(case Filter_set lib_to_api self key (PEvent e) suffix of
            Inl err \<Rightarrow> False
          | Inr f \<Rightarrow>
              (case f (''event_type'' @ suffix) of
                 Some (PStr s) \<Rightarrow> Event_type s = Inr e
               | _ \<Rightarrow> False))"
  using assms by (simp add: Filter_set_def event_type_value_PEvent Event_type_wire)

theorem event_type_round_trip_witness:
  "api_name [''type'' \<mapsto> ''event_type''] ''type'' = ''event_type''
   \<and> Filter_set [''type'' \<mapsto> ''event_type''] Map.empty ''type'' (PEvent unsubscribe) [] =
       Inr [''event_type'' \<mapsto> PStr ''USER_UNSUBSCRIBE'']
   \<and> Event_type ''USER_UNSUBSCRIBE'' = Inr unsubscribe"
  using event_type_round_trip
          [where lib_to_api = "[''type'' \<mapsto> ''event_type'']" and key = "''type''"
             and self = Map.empty and e = unsubscribe and suffix = "[]"]
  by (simp add: api_name_def Filter_set_def event_type_value_def letter_defs
        Event_type_def startswith_def EventType_lookup_def EventType_members_def)

section \<open>Properties of the filter methods\<close>

lemma Filter_set_plain:
  assumes "api_name lib_to_api key \<noteq> ''event_type''" and "enum_value v = Inl AttributeError"
  shows "Filter_set lib_to_api self key v suffix = Inr (self(api_name lib_to_api key @ suffix \<mapsto> v))"
  using assms by (simp add: Filter_set_def Let_def)

text \<open>
  For a key that is not translated to \<^verbatim>\<open>event_type\<close>, each method stores the value under the
  translated key followed by its suffix; \<^verbatim>\<open>values_in\<close> and \<^verbatim>\<open>values_not_in\<close> store the elements
  joined by commas, \<^verbatim>\<open>equals\<close> adds no suffix, and \<^verbatim>\<open>sort\<close> stores the key, after a minus sign
  when \<^verbatim>\<open>reverse\<close> is true.
\<close>

lemma filter_suffix_grammar:
  assumes "api_name lib_to_api key \<noteq> ''event_type''"
  shows "values_in lib_to_api self [(key, xs)] =
           Inr (self(api_name lib_to_api key @ ''-in'' \<mapsto> PStr (join '','' (map scalar_str xs))))"
    and "values_not_in lib_to_api self [(key, xs)] =
           Inr (self(api_name lib_to_api key @ ''-not-in'' \<mapsto> PStr (join '','' (map scalar_str xs))))"
    and "not_like lib_to_api self [(key, PStr s)] =
           Inr (self(api_name lib_to_api key @ ''-not-lk'' \<mapsto> PStr s))"
    and "like lib_to_api self [(key, PStr s)] =
           Inr (self(api_name lib_to_api key @ ''-lk'' \<mapsto> PStr s))"
    and "equals lib_to_api self [(key, PStr s)] =
           Inr (self(api_name lib_to_api key \<mapsto> PStr s))"
    and "not_equals lib_to_api self [(key, PStr s)] =
           Inr (self(api_name lib_to_api key @ ''-not'' \<mapsto> PStr s))"
    and "Filter_sort self k True = self(''_sort'' \<mapsto> PStr (''-'' @ k))"
    and "Filter_sort self k False = self(''_sort'' \<mapsto> PStr k)"
  using assms
  by (simp_all add: values_in_def values_not_in_def not_like_def like_def equals_def
        not_equals_def joined_def Filter_set_plain Filter_sort_def)

text \<open>The three examples, with a table that translates neither \<^verbatim>\<open>field\<close> nor \<^verbatim>\<open>name\<close>.\<close>

lemma filter_examples:
  "values_in Map.empty Map.empty [(''field'', [SInt 3, SInt 11, SInt 16])] =
     Inr [''field-in'' \<mapsto> PStr ''3,11,16'']"
  "not_like Map.empty Map.empty [(''name'', PStr ''*Pack'')] =
     Inr [''name-not-lk'' \<mapsto> PStr ''*Pack'']"
  "Filter_sort Map.empty ''id'' True = [''_sort'' \<mapsto> PStr ''-id'']"
  by (simp_all add: values_in_def not_like_def joined_def Filter_set_def Filter_sort_def
        api_name_def str_int_def digits.simps)

text \<open>
  C8. The claim is that \<^verbatim>\<open>values_in\<close> stores the comma-joined sequence under the key with the
  suffix \<^verbatim>\<open>-in\<close>, and \<^verbatim>\<open>not_like\<close> the pattern under the key with \<^verbatim>\<open>-not-lk\<close>. For a key
  that is translated to \<^verbatim>\<open>event_type\<close> the code does not: \<^verbatim>\<open>_set\<close> reads \<^verbatim>\<open>value.value\<close> of
  the joined string or of the pattern, which raises \<^verbatim>\<open>AttributeError\<close>, and nothing is stored.
\<close>

theorem event_type_values_in_raises:
  assumes "api_name lib_to_api key = ''event_type''"
  shows "values_in lib_to_api self [(key, xs)] = Inl AttributeError
       \<and> values_not_in lib_to_api self [(key, xs)] = Inl AttributeError
       \<and> not_like lib_to_api self [(key, PStr s)] = Inl AttributeError"
  using assms
  by (simp add: values_in_def values_not_in_def not_like_def joined_def Filter_set_def
        event_type_value_def)

theorem event_type_values_in_raises_witness:
  "api_name Map.empty ''event_type'' = ''event_type''
   \<and> values_in Map.empty Map.empty
        [(''event_type'', [SStr ''MOD_AVAILABLE'', SStr ''MOD_EDITED''])] = Inl AttributeError
   \<and> values_in Map.empty Map.empty [(''event_type'', [SEvent available, SEvent edited])] =
        Inl AttributeError"
  using event_type_values_in_raises
    [where lib_to_api = Map.empty and key = "''event_type''" and self = Map.empty
       and xs = "[SStr ''MOD_AVAILABLE'', SStr ''MOD_EDITED'']"]
    event_type_values_in_raises
    [where lib_to_api = Map.empty and key = "''event_type''" and self = Map.empty
       and xs = "[SEvent available, SEvent edited]"]
  by (simp add: api_name_def)

section \<open>Properties of response handling\<close>

lemma error_check_client:
  "snd (error_check self r) =
     self\<lparr>rate_limit :=
            (case headers r ''X-RateLimit-Limit'' of Some v \<Rightarrow> PStr v | None \<Rightarrow> rate_limit self),
          rate_remain :=
            (case headers r ''X-RateLimit-Remaining'' of Some v \<Rightarrow> PStr v | None \<Rightarrow> rate_remain self),
          rate_retry :=
            (case headers r ''X-Ratelimit-RetryAfter'' of Some v \<Rightarrow> PStr v | None \<Rightarrow> PInt 0)\<rparr>"
  by (simp add: error_check_def Let_def cong: option.case_cong)

text \<open>
  C4, as the code has it. After \<^verbatim>\<open>_error_check\<close>, \<^verbatim>\<open>rate_limit\<close> and \<^verbatim>\<open>rate_remain\<close> keep their
  previous value when their header is missing, and \<^verbatim>\<open>rate_retry\<close> is 0 when its header is
  missing, whatever it was before; a header that is present gives the attribute its value.
\<close>

theorem rate_limit_update:
  "(headers r ''X-RateLimit-Limit'' = None \<longrightarrow>
      rate_limit (snd (error_check self r)) = rate_limit self)
   \<and> (headers r ''X-RateLimit-Remaining'' = None \<longrightarrow>
      rate_remain (snd (error_check self r)) = rate_remain self)
   \<and> (headers r ''X-Ratelimit-RetryAfter'' = None \<longrightarrow>
      rate_retry (snd (error_check self r)) = PInt 0)
   \<and> (\<forall>v. headers r ''X-RateLimit-Limit'' = Some v \<longrightarrow>
      rate_limit (snd (error_check self r)) = PStr v)
   \<and> (\<forall>v. headers r ''X-RateLimit-Remaining'' = Some v \<longrightarrow>
      rate_remain (snd (error_check self r)) = PStr v)
   \<and> (\<forall>v. headers r ''X-Ratelimit-RetryAfter'' = Some v \<longrightarrow>
      rate_retry (snd (error_check self r)) = PStr v)"
  by (simp add: error_check_client)

theorem rate_limit_update_witness:
  "headers \<lparr>status_code = 200, headers = [''X-RateLimit-Limit'' \<mapsto> ''60''],
            body = Some (PDict [])\<rparr> ''X-RateLimit-Remaining'' = None
   \<and> headers \<lparr>status_code = 200, headers = [''X-RateLimit-Limit'' \<mapsto> ''60''],
            body = Some (PDict [])\<rparr> ''X-RateLimit-Limit'' = Some ''60''
   \<and> rate_limit (snd (error_check
        \<lparr>api_key = Some ''key'', access_token = None, lang = ''en'', version = ''v1'',
         rate_limit = PStr ''100'', rate_remain = PStr ''41'', rate_retry = PInt 0, test = False\<rparr>
        \<lparr>status_code = 200, headers = [''X-RateLimit-Limit'' \<mapsto> ''60''],
         body = Some (PDict [])\<rparr>)) = PStr ''60''
   \<and> rate_remain (snd (error_check
        \<lparr>api_key = Some ''key'', access_token = None, lang = ''en'', version = ''v1'',
         rate_limit = PStr ''100'', rate_remain = PStr ''41'', rate_retry = PInt 0, test = False\<rparr>
        \<lparr>status_code = 200, headers = [''X-RateLimit-Limit'' \<mapsto> ''60''],
         body = Some (PDict [])\<rparr>)) = PStr ''41''"
  using rate_limit_update
    [where self = "\<lparr>api_key = Some ''key'', access_token = None, lang = ''en'', version = ''v1'',
         rate_limit = PStr ''100'', rate_remain = PStr ''41'', rate_retry = PInt 0, test = False\<rparr>"
       and r = "\<lparr>status_code = 200, headers = [''X-RateLimit-Limit'' \<mapsto> ''60''],
         body = Some (PDict [])\<rparr>"]
  by simp

text \<open>
  The retry-after value is not kept: a client whose \<^verbatim>\<open>rate_retry\<close> is \<^verbatim>\<open>"30"\<close> handles a
  response without the header \<^verbatim>\<open>X-Ratelimit-RetryAfter\<close>, and its \<^verbatim>\<open>rate_retry\<close> is 0 afterwards.
\<close>

theorem retry_after_not_kept:
  "headers \<lparr>status_code = 200, headers = [''X-RateLimit-Remaining'' \<mapsto> ''59''],
            body = Some (PDict [])\<rparr> ''X-Ratelimit-RetryAfter'' = None
   \<and> rate_retry \<lparr>api_key = Some ''key'', access_token = None, lang = ''en'', version = ''v1'',
         rate_limit = PStr ''60'', rate_remain = PStr ''0'', rate_retry = PStr ''30'',
         test = False\<rparr> = PStr ''30''
   \<and> rate_retry (snd (error_check
        \<lparr>api_key = Some ''key'', access_token = None, lang = ''en'', version = ''v1'',
         rate_limit = PStr ''60'', rate_remain = PStr ''0'', rate_retry = PStr ''30'',
         test = False\<rparr>
        \<lparr>status_code = 200, headers = [''X-RateLimit-Remaining'' \<mapsto> ''59''],
         body = Some (PDict [])\<rparr>)) = PInt 0
   \<and> PInt 0 \<noteq> PStr ''30''"
  by (simp add: error_check_def Let_def)

text \<open>
  C5. For a response whose status is not 204 and whose decoded body has the key \<^verbatim>\<open>error\<close>
  with an integer \<^verbatim>\<open>code\<close> and a \<^verbatim>\<open>message\<close>, \<^verbatim>\<open>_error_check\<close> raises the exception of the
  code: 400 BadRequest, 401 Unauthorized, 403 Forbidden, 404 NotFound, 405 MethodNotAllowed,
  406 NotAcceptable, 410 Gone, 422 UnprocessableEntity with the entry \<^verbatim>\<open>errors\<close> of the
  envelope, or \<^verbatim>\<open>None\<close> without one, 429 TooManyRequests with the retry-after value that this
  response's header gives (0 without the header), which is the client's \<^verbatim>\<open>rate_retry\<close> after
  the call and not the value before it, and \<^verbatim>\<open>modioException\<close> for every other code; each
  carries the message.
\<close>

theorem error_classification:
  assumes "status_code r \<noteq> 204"
    and "body r = Some (PDict js)"
    and "map_of js ''error'' = Some (PDict err)"
    and "map_of err ''code'' = Some (PInt code)"
    and "map_of err ''message'' = Some msg"
  shows "fst (error_check self r) = Inl
           (if code = 400 then BadRequest msg
            else if code = 401 then Unauthorized msg
            else if code = 403 then Forbidden msg
            else if code = 404 then NotFound msg
            else if code = 405 then MethodNotAllowed msg
            else if code = 406 then NotAcceptable msg
            else if code = 410 then Gone msg
            else if code = 422 then
              UnprocessableEntity msg (case map_of err ''errors'' of Some es \<Rightarrow> es | None \<Rightarrow> PNone)
            else if code = 429 then
              TooManyRequests msg
                (case headers r ''X-Ratelimit-RetryAfter'' of Some v \<Rightarrow> PStr v | None \<Rightarrow> PInt 0)
            else modioException msg)
       \<and> (code = 429 \<longrightarrow>
            fst (error_check self r) =
              Inl (TooManyRequests msg (rate_retry (snd (error_check self r)))))"
  using assms by (simp add: error_check_def Let_def split: option.split)

theorem error_classification_witness:
  "status_code \<lparr>status_code = 429, headers = [''X-Ratelimit-RetryAfter'' \<mapsto> ''30''],
         body = Some (PDict [(''error'', PDict [(''code'', PInt 429),
                               (''message'', PStr ''Too many requests'')])])\<rparr> \<noteq> 204
   \<and> map_of [(''error'', PDict [(''code'', PInt 429), (''message'', PStr ''Too many requests'')])]
        ''error'' = Some (PDict [(''code'', PInt 429), (''message'', PStr ''Too many requests'')])
   \<and> map_of [(''code'', PInt 429), (''message'', PStr ''Too many requests'')] ''code'' =
        Some (PInt 429)
   \<and> map_of [(''code'', PInt 429), (''message'', PStr ''Too many requests'')] ''message'' =
        Some (PStr ''Too many requests'')
   \<and> fst (error_check
        \<lparr>api_key = Some ''key'', access_token = None, lang = ''en'', version = ''v1'',
         rate_limit = PStr ''60'', rate_remain = PStr ''1'', rate_retry = PStr ''5'',
         test = False\<rparr>
        \<lparr>status_code = 429, headers = [''X-Ratelimit-RetryAfter'' \<mapsto> ''30''],
         body = Some (PDict [(''error'', PDict [(''code'', PInt 429),
                               (''message'', PStr ''Too many requests'')])])\<rparr>) =
     Inl (TooManyRequests (PStr ''Too many requests'') (PStr ''30''))"
  using error_classification
    [where self = "\<lparr>api_key = Some ''key'', access_token = None, lang = ''en'', version = ''v1'',
         rate_limit = PStr ''60'', rate_remain = PStr ''1'', rate_retry = PStr ''5'',
         test = False\<rparr>"
       and r = "\<lparr>status_code = 429, headers = [''X-Ratelimit-RetryAfter'' \<mapsto> ''30''],
         body = Some (PDict [(''error'', PDict [(''code'', PInt 429),
                               (''message'', PStr ''Too many requests'')])])\<rparr>"
       and js = "[(''error'', PDict [(''code'', PInt 429),
                               (''message'', PStr ''Too many requests'')])]"
       and err = "[(''code'', PInt 429), (''message'', PStr ''Too many requests'')]"
       and code = 429 and msg = "PStr ''Too many requests''"]
  by simp

text \<open>
  C6. For a response whose status is 204, \<^verbatim>\<open>_error_check\<close> returns the response itself,
  whatever its body is, also when the body is not JSON: the status is tested before the
  body is decoded.
\<close>

theorem no_content_skips_decoding:
  assumes "status_code r = 204"
  shows "fst (error_check self r) = Inr (RResponse r)"
  using assms by (simp add: error_check_def Let_def)

theorem no_content_skips_decoding_witness:
  "status_code \<lparr>status_code = 204, headers = Map.empty, body = None\<rparr> = 204
   \<and> fst (error_check
        \<lparr>api_key = None, access_token = Some ''token'', lang = ''en'', version = ''v1'',
         rate_limit = PNone, rate_remain = PNone, rate_retry = PInt 0, test = False\<rparr>
        \<lparr>status_code = 204, headers = Map.empty, body = None\<rparr>) =
       Inr (RResponse \<lparr>status_code = 204, headers = Map.empty, body = None\<rparr>)
   \<and> fst (error_check
        \<lparr>api_key = None, access_token = Some ''token'', lang = ''en'', version = ''v1'',
         rate_limit = PNone, rate_remain = PNone, rate_retry = PInt 0, test = False\<rparr>
        \<lparr>status_code = 200, headers = Map.empty, body = None\<rparr>) = Inl JSONDecodeError"
  using no_content_skips_decoding
    [where r = "\<lparr>status_code = 204, headers = Map.empty, body = None\<rparr>"
       and self = "\<lparr>api_key = None, access_token = Some ''token'', lang = ''en'', version = ''v1'',
         rate_limit = PNone, rate_remain = PNone, rate_retry = PInt 0, test = False\<rparr>"]
  by (simp add: error_check_def Let_def)

section \<open>Properties of request building\<close>

lemma define_headers_2:
  "define_headers self 2 =
     Inr [''Accept'' \<mapsto> ''application/json'', ''Accept-Language'' \<mapsto> lang self,
          ''Content-Type'' \<mapsto> ''application/x-www-form-urlencoded'']"
  by (simp add: define_headers_def)


lemma define_headers_token:
  assumes "access_token self = Some t" and "h_type = 0 \<or> h_type = 1 \<or> h_type = 2"
  shows "\<exists>hs. define_headers self h_type = Inr hs"
  using assms by (auto simp add: define_headers_def)

text \<open>What \<open>dispatch\<close> sends and what it returns, by the outcome of building the headers.\<close>

lemma sent_dispatch:
  "sent (dispatch transport self v path h_type p) =
     (case define_headers self h_type of
        Inl e \<Rightarrow> []
      | Inr hs \<Rightarrow> [\<lparr>verb = v, url = base_path self @ path, req_headers = hs, payload = p\<rparr>])"
  by (simp add: dispatch_def Let_def split: sum.split prod.split)

lemma result_dispatch:
  "result (dispatch transport self v path h_type p) =
     (case define_headers self h_type of
        Inl e \<Rightarrow> Inl e
      | Inr hs \<Rightarrow>
          (case transport \<lparr>verb = v, url = base_path self @ path, req_headers = hs, payload = p\<rparr> of
             Inl e \<Rightarrow> Inl e
           | Inr r \<Rightarrow> fst (error_check self r)))"
  by (simp add: dispatch_def Let_def split: sum.split prod.split)



lemma sent_get_request_no_token:
  assumes "\<not> truthy (access_token self)"
  shows "sent (get_request transport self path h_type flt fields') =
     [\<lparr>verb = GET, url = base_path self @ path,
       req_headers = [''Accept'' \<mapsto> ''application/json'', ''Accept-Language'' \<mapsto> lang self,
                      ''Content-Type'' \<mapsto> ''application/x-www-form-urlencoded''],
       payload = Params ((fields' ++ (case flt of Some f \<Rightarrow> f | None \<Rightarrow> Map.empty))
                          (''api_key'' \<mapsto> opt_str (api_key self)))\<rparr>]"
  using assms by (simp add: get_request_def sent_dispatch define_headers_2)

lemma result_get_request_no_token:
  assumes "\<not> truthy (access_token self)"
  shows "result (get_request transport self path h_type flt fields') =
     (case transport
             \<lparr>verb = GET, url = base_path self @ path,
              req_headers = [''Accept'' \<mapsto> ''application/json'', ''Accept-Language'' \<mapsto> lang self,
                             ''Content-Type'' \<mapsto> ''application/x-www-form-urlencoded''],
              payload = Params ((fields' ++ (case flt of Some f \<Rightarrow> f | None \<Rightarrow> Map.empty))
                                 (''api_key'' \<mapsto> opt_str (api_key self)))\<rparr> of
        Inl e \<Rightarrow> Inl e
      | Inr r \<Rightarrow> fst (error_check self r))"
  using assms by (simp add: get_request_def result_dispatch define_headers_2)

lemma sent_get_games:
  "sent (get_games transport build self flt) =
     sent (get_request transport self ''/games'' 0 flt Map.empty)"
  by (simp add: get_games_def Let_def split: sum.split option.split)

lemma result_get_games:
  "result (get_games transport build self flt) =
     (case result (get_request transport self ''/games'' 0 flt Map.empty) of
        Inl e \<Rightarrow> Inl e
      | Inr game_json \<Rightarrow> (case build game_json of Some e \<Rightarrow> Inl e | None \<Rightarrow> Inr ()))"
  by (simp add: get_games_def Let_def split: sum.split option.split)

text \<open>
  C1, as the code has it. When \<^verbatim>\<open>_get_request\<close> is given a filter and other keyword
  arguments, the parameters of the request are the keyword arguments overwritten by the
  attributes of the filter: a key of the filter goes out with the filter's value, whether
  or not the keyword arguments have it too, and a key that only the keyword arguments have
  goes out with their value. Only \<^verbatim>\<open>api_key\<close> is overwritten once more, by the client's key,
  when the client has no access token. The request is sent for each of the three header
  kinds.
\<close>

theorem filter_parameter_wins:
  assumes "h_type = 0 \<or> h_type = 1 \<or> h_type = 2"
  shows "sent_payload (get_request transport self path h_type (Some f) fields') =
           [Params (if truthy (access_token self) then fields' ++ f
                    else (fields' ++ f)(''api_key'' \<mapsto> opt_str (api_key self)))]
       \<and> sent_param (get_request transport self path h_type (Some f) fields') k =
           [if \<not> truthy (access_token self) \<and> k = ''api_key'' then Some (opt_str (api_key self))
            else (case f k of Some v \<Rightarrow> Some v | None \<Rightarrow> fields' k)]"
proof (cases "truthy (access_token self)")
  case False
  then show ?thesis
    by (simp add: get_request_def sent_param_def sent_payload_def sent_dispatch define_headers_2
          map_add_def)
next
  case True
  then obtain t where t: "access_token self = Some t"
    by (cases "access_token self") auto
  from define_headers_token [OF t assms]
  obtain hs where "define_headers self h_type = Inr hs" ..
  with True show ?thesis
    by (simp add: get_request_def sent_param_def sent_payload_def sent_dispatch map_add_def)
qed

theorem filter_parameter_wins_witness:
  "sent_param
     (get_request
        (answer \<lparr>status_code = 200, headers = Map.empty, body = Some (PDict [])\<rparr>)
        \<lparr>api_key = Some ''key'', access_token = None, lang = ''en'', version = ''v1'',
         rate_limit = PNone, rate_remain = PNone, rate_retry = PInt 0, test = False\<rparr>
        ''/games'' 0 (Some [''_limit'' \<mapsto> PInt 10])
        [''_limit'' \<mapsto> PInt 5, ''name'' \<mapsto> PStr ''x'', ''api_key'' \<mapsto> PStr ''other''])
     ''_limit'' = [Some (PInt 10)]
   \<and> sent_param
     (get_request
        (answer \<lparr>status_code = 200, headers = Map.empty, body = Some (PDict [])\<rparr>)
        \<lparr>api_key = Some ''key'', access_token = None, lang = ''en'', version = ''v1'',
         rate_limit = PNone, rate_remain = PNone, rate_retry = PInt 0, test = False\<rparr>
        ''/games'' 0 (Some [''_limit'' \<mapsto> PInt 10])
        [''_limit'' \<mapsto> PInt 5, ''name'' \<mapsto> PStr ''x'', ''api_key'' \<mapsto> PStr ''other''])
     ''name'' = [Some (PStr ''x'')]
   \<and> sent_param
     (get_request
        (answer \<lparr>status_code = 200, headers = Map.empty, body = Some (PDict [])\<rparr>)
        \<lparr>api_key = Some ''key'', access_token = None, lang = ''en'', version = ''v1'',
         rate_limit = PNone, rate_remain = PNone, rate_retry = PInt 0, test = False\<rparr>
        ''/games'' 0 (Some [''_limit'' \<mapsto> PInt 10])
        [''_limit'' \<mapsto> PInt 5, ''name'' \<mapsto> PStr ''x'', ''api_key'' \<mapsto> PStr ''other''])
     ''api_key'' = [Some (PStr ''key'')]"
  using filter_parameter_wins
    [where f = "[''_limit'' \<mapsto> PInt 10]" and k = "''_limit''"
       and self = "\<lparr>api_key = Some ''key'', access_token = None, lang = ''en'', version = ''v1'',
         rate_limit = PNone, rate_remain = PNone, rate_retry = PInt 0, test = False\<rparr>"
       and h_type = 0 and path = "''/games''"
       and transport = "answer \<lparr>status_code = 200, headers = Map.empty, body = Some (PDict [])\<rparr>"
       and fields' = "[''_limit'' \<mapsto> PInt 5, ''name'' \<mapsto> PStr ''x'', ''api_key'' \<mapsto> PStr ''other'']"]
    filter_parameter_wins
    [where f = "[''_limit'' \<mapsto> PInt 10]" and k = "''name''"
       and self = "\<lparr>api_key = Some ''key'', access_token = None, lang = ''en'', version = ''v1'',
         rate_limit = PNone, rate_remain = PNone, rate_retry = PInt 0, test = False\<rparr>"
       and h_type = 0 and path = "''/games''"
       and transport = "answer \<lparr>status_code = 200, headers = Map.empty, body = Some (PDict [])\<rparr>"
       and fields' = "[''_limit'' \<mapsto> PInt 5, ''name'' \<mapsto> PStr ''x'', ''api_key'' \<mapsto> PStr ''other'']"]
    filter_parameter_wins
    [where f = "[''_limit'' \<mapsto> PInt 10]" and k = "''api_key''"
       and self = "\<lparr>api_key = Some ''key'', access_token = None, lang = ''en'', version = ''v1'',
         rate_limit = PNone, rate_remain = PNone, rate_retry = PInt 0, test = False\<rparr>"
       and h_type = 0 and path = "''/games''"
       and transport = "answer \<lparr>status_code = 200, headers = Map.empty, body = Some (PDict [])\<rparr>"
       and fields' = "[''_limit'' \<mapsto> PInt 5, ''name'' \<mapsto> PStr ''x'', ''api_key'' \<mapsto> PStr ''other'']"]
  by simp

text \<open>
  The explicit parameter does not win: with the keyword argument \<^verbatim>\<open>_limit=5\<close> and a filter
  built by \<^verbatim>\<open>limit(10)\<close>, the request goes out with \<^verbatim>\<open>_limit\<close> 10.
\<close>

theorem explicit_parameter_overwritten:
  "sent_param
     (get_request
        (answer \<lparr>status_code = 200, headers = Map.empty, body = Some (PDict [])\<rparr>)
        \<lparr>api_key = Some ''key'', access_token = Some ''token'', lang = ''en'', version = ''v1'',
         rate_limit = PNone, rate_remain = PNone, rate_retry = PInt 0, test = False\<rparr>
        ''/games'' 0 (Some (Filter_limit Map.empty (PInt 10))) [''_limit'' \<mapsto> PInt 5])
     ''_limit'' = [Some (PInt 10)]
   \<and> [Some (PInt 10)] \<noteq> [Some (PInt 5)]"
  by (simp add: get_request_def sent_param_def sent_dispatch define_headers_def Filter_limit_def)

text \<open>
  C2, as the code has it. A client without an API key and without an access token is not
  stopped by any validation. Its construction sends the request \<^verbatim>\<open>GET /games\<close>, and every
  call of \<^verbatim>\<open>_get_request\<close> on such a client sends its request, with the headers of kind 2 and
  the parameter \<^verbatim>\<open>api_key\<close> set to \<^verbatim>\<open>None\<close>. The call raises only what the transport raises or
  what \<^verbatim>\<open>_error_check\<close> raises on the response, and otherwise returns what \<^verbatim>\<open>_error_check\<close>
  returns; the constructor raises, besides, only what building the result objects from the
  decoded body raises.
\<close>

theorem no_validation_before_dispatch:
  "(let self0 = \<lparr>api_key = None, access_token = None, lang = lng, version = vers,
                  rate_limit = PNone, rate_remain = PNone, rate_retry = PInt 0, test = tst\<rparr>;
        rq0 = \<lparr>verb = GET,
               url = (if tst then ''https://api.test.mod.io/'' else ''https://api.mod.io/'')
                       @ vers @ ''/games'',
               req_headers = [''Accept'' \<mapsto> ''application/json'', ''Accept-Language'' \<mapsto> lng,
                              ''Content-Type'' \<mapsto> ''application/x-www-form-urlencoded''],
               payload = Params [''api_key'' \<mapsto> PNone]\<rparr>
    in sent (Client_init transport build_user build_games None None lng vers tst) = [rq0]
       \<and> result (Client_init transport build_user build_games None None lng vers tst) =
           (case transport rq0 of
              Inl e \<Rightarrow> Inl e
            | Inr r \<Rightarrow>
                (case fst (error_check self0 r) of
                   Inl e \<Rightarrow> Inl e
                 | Inr game_json \<Rightarrow>
                     (case build_games game_json of Some e \<Rightarrow> Inl e | None \<Rightarrow> Inr ()))))
   \<and> (api_key self = None \<and> access_token self = None \<longrightarrow>
        (let rq = \<lparr>verb = GET, url = base_path self @ path,
                   req_headers = [''Accept'' \<mapsto> ''application/json'',
                                  ''Accept-Language'' \<mapsto> lang self,
                                  ''Content-Type'' \<mapsto> ''application/x-www-form-urlencoded''],
                   payload = Params ((fields' ++ (case flt of Some f \<Rightarrow> f | None \<Rightarrow> Map.empty))
                                      (''api_key'' \<mapsto> PNone))\<rparr>
         in sent (get_request transport self path h_type flt fields') = [rq]
            \<and> result (get_request transport self path h_type flt fields') =
                (case transport rq of
                   Inl e \<Rightarrow> Inl e
                 | Inr r \<Rightarrow> fst (error_check self r))))"
  by (simp add: Client_init_def sent_get_games result_get_games sent_get_request_no_token
        result_get_request_no_token base_path_def Let_def split: sum.split)

theorem no_validation_before_dispatch_witness:
  "api_key \<lparr>api_key = None, access_token = None, lang = ''en'', version = ''v1'',
         rate_limit = PNone, rate_remain = PNone, rate_retry = PInt 0, test = False\<rparr> = None
   \<and> access_token \<lparr>api_key = None, access_token = None, lang = ''en'', version = ''v1'',
         rate_limit = PNone, rate_remain = PNone, rate_retry = PInt 0, test = False\<rparr> = None
   \<and> sent_param
     (get_request
        (answer \<lparr>status_code = 200, headers = Map.empty,
                 body = Some (PDict [(''data'', PList [])])\<rparr>)
        \<lparr>api_key = None, access_token = None, lang = ''en'', version = ''v1'',
         rate_limit = PNone, rate_remain = PNone, rate_retry = PInt 0, test = False\<rparr>
        ''/games'' 0 None Map.empty) ''api_key'' = [Some PNone]
   \<and> result
     (get_request
        (answer \<lparr>status_code = 200, headers = Map.empty,
                 body = Some (PDict [(''data'', PList [])])\<rparr>)
        \<lparr>api_key = None, access_token = None, lang = ''en'', version = ''v1'',
         rate_limit = PNone, rate_remain = PNone, rate_retry = PInt 0, test = False\<rparr>
        ''/games'' 0 None Map.empty) = Inr (RJson (PDict [(''data'', PList [])]))"
  using no_validation_before_dispatch
    [where self = "\<lparr>api_key = None, access_token = None, lang = ''en'', version = ''v1'',
         rate_limit = PNone, rate_remain = PNone, rate_retry = PInt 0, test = False\<rparr>"
       and transport = "answer \<lparr>status_code = 200, headers = Map.empty,
                 body = Some (PDict [(''data'', PList [])])\<rparr>"
       and path = "''/games''" and h_type = 0 and flt = None and fields' = Map.empty]
  by (simp add: sent_param_def answer_def error_check_def Let_def)

text \<open>
  No validation precedes the request: constructing a client with neither credential, against
  a server that answers 401, sends one request, whose \<^verbatim>\<open>api_key\<close> is \<^verbatim>\<open>None\<close>, and the
  constructor fails with the \<^verbatim>\<open>Unauthorized\<close> of that answer.
\<close>

theorem request_sent_without_credentials:
  "sent_param
     (Client_init
        (answer \<lparr>status_code = 401, headers = Map.empty,
                 body = Some (PDict [(''error'', PDict [(''code'', PInt 401),
                                       (''message'', PStr ''Unauthorized'')])])\<rparr>)
        built built None None ''en'' ''v1'' False) ''api_key'' = [Some PNone]
   \<and> result
     (Client_init
        (answer \<lparr>status_code = 401, headers = Map.empty,
                 body = Some (PDict [(''error'', PDict [(''code'', PInt 401),
                                       (''message'', PStr ''Unauthorized'')])])\<rparr>)
        built built None None ''en'' ''v1'' False) = Inl (Unauthorized (PStr ''Unauthorized''))"
  by (simp add: Client_init_def get_games_def get_request_def dispatch_def define_headers_def
        answer_def error_check_def sent_param_def Let_def)




end
